theory Spec2Isabelle
  imports Complex_Main
begin

section \<open>Data model of \<^verbatim>\<open>eye_tracker.py\<close>\<close>

text \<open>
  Python floats (eye aspect ratios, timestamps, gaze coordinates) are modelled as
  real numbers: rounding, NaN and infinities are outside the model. Python
  integers (pixel coordinates, list indices, the blink counter, the frame
  dimensions) are unbounded and modelled as \<^typ>\<open>int\<close>. The attributes of the
  tracker that hold the MediaPipe handles carry no state the gesture logic reads
  and are left out.
\<close>

datatype GestureType = NONE | LEFT_WINK | RIGHT_WINK | DOUBLE_BLINK | SUSTAINED_GAZE

datatype py_error = ValueError | IndexError

record EyeTracker =
  ear_threshold :: real
  wink_duration :: "real \<times> real"
  left_eye_closed_time :: real
  right_eye_closed_time :: real
  last_blink_time :: real
  blink_count :: int
  gaze_history :: "(real \<times> real) list"
  gaze_history_max :: int
  frame_width :: int
  frame_height :: int

text \<open>The constructor; Python's defaults are \<open>0.25\<close> and \<open>(0.2, 0.5)\<close>.\<close>

definition EyeTracker_init :: "real \<Rightarrow> real \<times> real \<Rightarrow> EyeTracker" where
  "EyeTracker_init thr wd =
     \<lparr> ear_threshold = thr, wink_duration = wd,
       left_eye_closed_time = 0, right_eye_closed_time = 0,
       last_blink_time = 0, blink_count = 0,
       gaze_history = [], gaze_history_max = 30,
       frame_width = 0, frame_height = 0 \<rparr>"

definition EyeTracker_default :: EyeTracker where
  "EyeTracker_default = EyeTracker_init 0.25 (0.2, 0.5)"

definition LEFT_EYE_INDICES :: "int list" where
  "LEFT_EYE_INDICES = [33, 7, 163, 144, 145, 153, 154, 155, 133, 173, 157, 158, 159, 160, 161, 246]"

definition RIGHT_EYE_INDICES :: "int list" where
  "RIGHT_EYE_INDICES = [362, 382, 381, 380, 374, 373, 390, 249, 263, 466, 388, 387, 386, 385, 384, 398]"

definition LEFT_EAR_INDICES :: "int list" where
  "LEFT_EAR_INDICES = [33, 160, 158, 133, 153, 144]"

definition RIGHT_EAR_INDICES :: "int list" where
  "RIGHT_EAR_INDICES = [362, 385, 387, 263, 373, 380]"

definition set_frame_dimensions :: "EyeTracker \<Rightarrow> int \<Rightarrow> int \<Rightarrow> EyeTracker" where
  "set_frame_dimensions s width height = s\<lparr>frame_width := width, frame_height := height\<rparr>"

section \<open>Python list primitives, with their exceptions as values\<close>

definition bind_err :: "py_error + 'a \<Rightarrow> ('a \<Rightarrow> py_error + 'b) \<Rightarrow> py_error + 'b" where
  "bind_err m f = (case m of Inl e \<Rightarrow> Inl e | Inr x \<Rightarrow> f x)"

text \<open>\<^verbatim>\<open>max(xs)\<close> raises \<^verbatim>\<open>ValueError\<close> on an empty list.\<close>

fun py_max :: "int list \<Rightarrow> py_error + int" where
  "py_max [] = Inl ValueError"
| "py_max (x # xs) = Inr (fold max xs x)"

text \<open>
  \<^verbatim>\<open>xs[i]\<close>: an index below zero counts from the end of the list, and an index
  outside \<open>-len .. len - 1\<close> raises \<^verbatim>\<open>IndexError\<close>. \<open>py_at\<close> is the position
  read when the index is in range.
\<close>

definition py_at :: "'a list \<Rightarrow> int \<Rightarrow> 'a" where
  "py_at xs i = xs ! nat (if i < 0 then int (length xs) + i else i)"

definition py_getitem :: "'a list \<Rightarrow> int \<Rightarrow> py_error + 'a" where
  "py_getitem xs i =
     (if - int (length xs) \<le> i \<and> i < int (length xs) then Inr (py_at xs i)
      else Inl IndexError)"

text \<open>
  \<^verbatim>\<open>np.linalg.norm(np.array(p) - np.array(q))\<close> on two integer points: the
  Euclidean distance.
\<close>

definition norm_diff :: "int \<times> int \<Rightarrow> int \<times> int \<Rightarrow> real" where
  "norm_diff p q = sqrt (real_of_int ((fst p - fst q)\<^sup>2 + (snd p - snd q)\<^sup>2))"

section \<open>Metrics\<close>

definition calculate_ear :: "(int \<times> int) list \<Rightarrow> int list \<Rightarrow> py_error + real" where
  "calculate_ear lms eye_indices =
     bind_err (py_max eye_indices) (\<lambda>m.
       if int (length lms) < m + 1 then Inr 0
       else
         bind_err (py_getitem eye_indices 0) (\<lambda>i0. bind_err (py_getitem lms i0) (\<lambda>p1.
         bind_err (py_getitem eye_indices 1) (\<lambda>i1. bind_err (py_getitem lms i1) (\<lambda>p2.
         bind_err (py_getitem eye_indices 2) (\<lambda>i2. bind_err (py_getitem lms i2) (\<lambda>p3.
         bind_err (py_getitem eye_indices 3) (\<lambda>i3. bind_err (py_getitem lms i3) (\<lambda>p4.
         bind_err (py_getitem eye_indices 4) (\<lambda>i4. bind_err (py_getitem lms i4) (\<lambda>p5.
         bind_err (py_getitem eye_indices 5) (\<lambda>i5. bind_err (py_getitem lms i5) (\<lambda>p6.
           let vertical_1 = norm_diff p2 p6;
               vertical_2 = norm_diff p3 p5;
               horizontal = norm_diff p1 p4
           in if horizontal = 0 then Inr 0
              else Inr ((vertical_1 + vertical_2) / (2 * horizontal)))))))))))))))"

definition calculate_gaze ::
    "EyeTracker \<Rightarrow> (int \<times> int) list \<Rightarrow> int list \<Rightarrow> py_error + (real \<times> real)" where
  "calculate_gaze s lms eye_indices =
     bind_err (py_max eye_indices) (\<lambda>m.
       if int (length lms) < m + 1 then Inr (0.5, 0.5)
       else
         bind_err (py_getitem eye_indices 0) (\<lambda>i0. bind_err (py_getitem lms i0) (\<lambda>eye_center.
         bind_err (py_getitem eye_indices 1) (\<lambda>i1. bind_err (py_getitem lms i1) (\<lambda>iris_center.
           if frame_width s > 0 \<and> frame_height s > 0
           then Inr (real_of_int (fst iris_center) / real_of_int (frame_width s),
                     real_of_int (snd iris_center) / real_of_int (frame_height s))
           else Inr (0.5, 0.5))))))"

section \<open>The gesture state machine\<close>

text \<open>
  \<open>detect_gesture\<close> returns the gesture together with the updated tracker. The
  \<^verbatim>\<open>return\<close> statements inside the branches leave the method at once, so the
  assignment to \<open>last_blink_time\<close> that closes the both-eyes branch is reached
  only on the paths that did not return before it.
\<close>

definition detect_gesture ::
    "EyeTracker \<Rightarrow> real \<Rightarrow> real \<Rightarrow> real \<Rightarrow> GestureType \<times> EyeTracker" where
  "detect_gesture s l_ear r_ear current_time =
     (let left_closed = l_ear < ear_threshold s;
          right_closed = r_ear < ear_threshold s;
          s1 = (if left_closed
                then (if left_eye_closed_time s = 0
                      then s\<lparr>left_eye_closed_time := current_time\<rparr> else s)
                else s\<lparr>left_eye_closed_time := 0\<rparr>);
          s2 = (if right_closed
                then (if right_eye_closed_time s1 = 0
                      then s1\<lparr>right_eye_closed_time := current_time\<rparr> else s1)
                else s1\<lparr>right_eye_closed_time := 0\<rparr>)
      in if left_closed \<and> \<not> right_closed then
           (if left_eye_closed_time s2 > 0
               \<and> fst (wink_duration s2) \<le> current_time - left_eye_closed_time s2
               \<and> current_time - left_eye_closed_time s2 \<le> snd (wink_duration s2)
            then (LEFT_WINK, s2) else (NONE, s2))
         else if right_closed \<and> \<not> left_closed then
           (if right_eye_closed_time s2 > 0
               \<and> fst (wink_duration s2) \<le> current_time - right_eye_closed_time s2
               \<and> current_time - right_eye_closed_time s2 \<le> snd (wink_duration s2)
            then (RIGHT_WINK, s2) else (NONE, s2))
         else if left_closed \<and> right_closed then
           (if current_time - last_blink_time s2 < 0.5 then
              (let s3 = s2\<lparr>blink_count := blink_count s2 + 1\<rparr>
               in if blink_count s3 \<ge> 2 then (DOUBLE_BLINK, s3\<lparr>blink_count := 0\<rparr>)
                  else (NONE, s3\<lparr>last_blink_time := current_time\<rparr>))
            else (NONE, s2\<lparr>blink_count := 1, last_blink_time := current_time\<rparr>))
         else (NONE, s2))"

text \<open>A sequence of calls \<open>(left_ear, right_ear, timestamp)\<close> on one tracker.\<close>

fun detect_gestures ::
    "EyeTracker \<Rightarrow> (real \<times> real \<times> real) list \<Rightarrow> GestureType list \<times> EyeTracker" where
  "detect_gestures s [] = ([], s)"
| "detect_gestures s ((l, r, t) # calls) =
     (let (g, s1) = detect_gesture s l r t;
          (gs, s2) = detect_gestures s1 calls
      in (g # gs, s2))"

text \<open>
  Python subtracts two floats with rounding: the difference is the double nearest
  to the exact one, where the subtraction in \<open>detect_gesture\<close> above is exact.
  \<open>detect_gesture_with fsub\<close> is the same method with the operation that
  subtracts two timestamps as the parameter \<open>fsub\<close>. What is proved of it for
  every \<open>fsub\<close> holds of the method with the rounding subtraction of the floats;
  \<open>detect_gesture\<close> is its instance at the exact subtraction.
\<close>

definition detect_gesture_with ::
    "(real \<Rightarrow> real \<Rightarrow> real) \<Rightarrow> EyeTracker \<Rightarrow> real \<Rightarrow> real \<Rightarrow> real
      \<Rightarrow> GestureType \<times> EyeTracker" where
  "detect_gesture_with fsub s l_ear r_ear current_time =
     (let left_closed = l_ear < ear_threshold s;
          right_closed = r_ear < ear_threshold s;
          s1 = (if left_closed
                then (if left_eye_closed_time s = 0
                      then s\<lparr>left_eye_closed_time := current_time\<rparr> else s)
                else s\<lparr>left_eye_closed_time := 0\<rparr>);
          s2 = (if right_closed
                then (if right_eye_closed_time s1 = 0
                      then s1\<lparr>right_eye_closed_time := current_time\<rparr> else s1)
                else s1\<lparr>right_eye_closed_time := 0\<rparr>)
      in if left_closed \<and> \<not> right_closed then
           (if left_eye_closed_time s2 > 0
               \<and> fst (wink_duration s2) \<le> fsub current_time (left_eye_closed_time s2)
               \<and> fsub current_time (left_eye_closed_time s2) \<le> snd (wink_duration s2)
            then (LEFT_WINK, s2) else (NONE, s2))
         else if right_closed \<and> \<not> left_closed then
           (if right_eye_closed_time s2 > 0
               \<and> fst (wink_duration s2) \<le> fsub current_time (right_eye_closed_time s2)
               \<and> fsub current_time (right_eye_closed_time s2) \<le> snd (wink_duration s2)
            then (RIGHT_WINK, s2) else (NONE, s2))
         else if left_closed \<and> right_closed then
           (if fsub current_time (last_blink_time s2) < 0.5 then
              (let s3 = s2\<lparr>blink_count := blink_count s2 + 1\<rparr>
               in if blink_count s3 \<ge> 2 then (DOUBLE_BLINK, s3\<lparr>blink_count := 0\<rparr>)
                  else (NONE, s3\<lparr>last_blink_time := current_time\<rparr>))
            else (NONE, s2\<lparr>blink_count := 1, last_blink_time := current_time\<rparr>))
         else (NONE, s2))"

fun detect_gestures_with ::
    "(real \<Rightarrow> real \<Rightarrow> real) \<Rightarrow> EyeTracker \<Rightarrow> (real \<times> real \<times> real) list
      \<Rightarrow> GestureType list \<times> EyeTracker" where
  "detect_gestures_with fsub s [] = ([], s)"
| "detect_gestures_with fsub s ((l, r, t) # calls) =
     (let (g, s1) = detect_gesture_with fsub s l r t;
          (gs, s2) = detect_gestures_with fsub s1 calls
      in (g # gs, s2))"

definition reset_metrics :: "EyeTracker \<Rightarrow> EyeTracker" where
  "reset_metrics s =
     s\<lparr>left_eye_closed_time := 0, right_eye_closed_time := 0,
       last_blink_time := 0, blink_count := 0, gaze_history := []\<rparr>"

section \<open>Frame processing\<close>

record EyeData =
  left_ear :: real
  right_ear :: real
  left_gaze :: "real \<times> real"
  right_gaze :: "real \<times> real"
  combined_gaze :: "real \<times> real"
  is_blinking :: bool
  gesture :: GestureType
  landmarks :: "(int \<times> int) list option"

text \<open>
  The collaborators of \<open>process_frame\<close> are inputs of the model: of the frame only
  its shape \<open>(rows, columns)\<close> is read, and the face mesh is represented by what
  \<^verbatim>\<open>results.multi_face_landmarks\<close> holds: nothing, or a list of faces, each a list of
  normalised \<open>(x, y)\<close> landmarks. \<^verbatim>\<open>int(v)\<close> truncates towards zero.
\<close>

type_synonym frame_shape = "nat \<times> nat"

type_synonym face_mesh_results = "(real \<times> real) list list option"

definition py_int :: "real \<Rightarrow> int" where
  "py_int v = (if 0 \<le> v then \<lfloor>v\<rfloor> else \<lceil>v\<rceil>)"

text \<open>
  Lines 246 to 248 of \<open>process_frame\<close>: append the point, then \<^verbatim>\<open>pop(0)\<close> if the
  history is longer than \<open>gaze_history_max\<close>. The list is not empty when it is
  popped, because the point has just been appended.
\<close>

definition update_gaze_history :: "EyeTracker \<Rightarrow> real \<times> real \<Rightarrow> EyeTracker" where
  "update_gaze_history s p =
     (let h = gaze_history s @ [p]
      in if int (length h) > gaze_history_max s then s\<lparr>gaze_history := tl h\<rparr>
         else s\<lparr>gaze_history := h\<rparr>)"

definition process_frame ::
    "EyeTracker \<Rightarrow> frame_shape \<Rightarrow> face_mesh_results \<Rightarrow> real
      \<Rightarrow> py_error + (EyeData option \<times> EyeTracker)" where
  "process_frame s shape results timestamp =
     (let s1 = (if frame_width s = 0 \<or> frame_height s = 0
                then set_frame_dimensions s (int (snd shape)) (int (fst shape)) else s)
      in case results of
           None \<Rightarrow> Inr (None, s1)
         | Some [] \<Rightarrow> Inr (None, s1)
         | Some (face_landmarks # _) \<Rightarrow>
             (let lms = map (\<lambda>(x, y). (py_int (x * real_of_int (frame_width s1)),
                                        py_int (y * real_of_int (frame_height s1))))
                            face_landmarks
              in bind_err (calculate_ear lms LEFT_EAR_INDICES) (\<lambda>l_ear.
                 bind_err (calculate_ear lms RIGHT_EAR_INDICES) (\<lambda>r_ear.
                 bind_err (calculate_gaze s1 lms LEFT_EYE_INDICES) (\<lambda>l_gaze.
                 bind_err (calculate_gaze s1 lms RIGHT_EYE_INDICES) (\<lambda>r_gaze.
                   let combined = ((fst l_gaze + fst r_gaze) / 2, (snd l_gaze + snd r_gaze) / 2);
                       s2 = update_gaze_history s1 combined;
                       blinking = (l_ear < ear_threshold s2 \<or> r_ear < ear_threshold s2);
                       (g, s3) = detect_gesture s2 l_ear r_ear timestamp
                   in Inr (Some \<lparr> left_ear = l_ear, right_ear = r_ear,
                                   left_gaze = l_gaze, right_gaze = r_gaze,
                                   combined_gaze = combined, is_blinking = blinking,
                                   gesture = g, landmarks = Some lms \<rparr>, s3)))))))"

text \<open>A sequence of frames processed by one tracker; an exception ends the run.\<close>

fun process_frames ::
    "EyeTracker \<Rightarrow> (frame_shape \<times> face_mesh_results \<times> real) list
      \<Rightarrow> py_error + (EyeData option list \<times> EyeTracker)" where
  "process_frames s [] = Inr ([], s)"
| "process_frames s ((shape, results, t) # frames) =
     bind_err (process_frame s shape results t) (\<lambda>(d, s1).
     bind_err (process_frames s1 frames) (\<lambda>(ds, s2). Inr (d # ds, s2)))"

text \<open>The combined-gaze points of the frames that produced a result, in order.\<close>

fun reported_gazes :: "EyeData option list \<Rightarrow> (real \<times> real) list" where
  "reported_gazes [] = []"
| "reported_gazes (None # ds) = reported_gazes ds"
| "reported_gazes (Some d # ds) = combined_gaze d # reported_gazes ds"

text \<open>Sample data for concrete instances: the points \<open>(0, 0), (1, 0), \<dots>\<close>.\<close>

definition sample_points :: "nat \<Rightarrow> (real \<times> real) list" where
  "sample_points n = map (\<lambda>i. (real i, 0)) [0..<n]"

section \<open>Facts about single calls of the state machine\<close>

lemma detect_gesture_ear_threshold:
  "ear_threshold (snd (detect_gesture s l r t)) = ear_threshold s"
  by (simp add: detect_gesture_def Let_def)

lemma detect_gesture_with_exact:
  "detect_gesture_with (\<lambda>a b. a - b) s l r t = detect_gesture s l r t"
  by (simp add: detect_gesture_with_def detect_gesture_def)

lemma detect_gestures_with_exact:
  "detect_gestures_with (\<lambda>a b. a - b) s calls = detect_gestures s calls"
proof (induction calls arbitrary: s)
  case Nil
  then show ?case by simp
next
  case (Cons c calls)
  obtain l r t where c: "c = (l, r, t)" by (cases c) auto
  show ?case by (simp add: c detect_gesture_with_exact Cons.IH)
qed

lemma both_open:
  assumes "\<not> l < ear_threshold s" "\<not> r < ear_threshold s"
  shows "detect_gesture_with fsub s l r t =
     (NONE, s\<lparr>left_eye_closed_time := 0, right_eye_closed_time := 0\<rparr>)"
  using assms by (simp add: detect_gesture_with_def Let_def)

lemma left_first_closed:
  assumes "c < ear_threshold s" "\<not> a < ear_threshold s" "left_eye_closed_time s = 0"
  shows "detect_gesture_with fsub s c a t =
     ((if 0 < t \<and> fst (wink_duration s) \<le> fsub t t \<and> fsub t t \<le> snd (wink_duration s)
       then LEFT_WINK else NONE),
      s\<lparr>left_eye_closed_time := t, right_eye_closed_time := 0\<rparr>)"
  using assms by (simp add: detect_gesture_with_def Let_def)

lemma right_first_closed:
  assumes "c < ear_threshold s" "\<not> a < ear_threshold s" "right_eye_closed_time s = 0"
  shows "detect_gesture_with fsub s a c t =
     ((if 0 < t \<and> fst (wink_duration s) \<le> fsub t t \<and> fsub t t \<le> snd (wink_duration s)
       then RIGHT_WINK else NONE),
      s\<lparr>left_eye_closed_time := 0, right_eye_closed_time := t\<rparr>)"
  using assms by (simp add: detect_gesture_with_def Let_def)

lemma left_only_running:
  assumes "l < ear_threshold s" "\<not> r < ear_threshold s" "left_eye_closed_time s \<noteq> 0"
  shows "detect_gesture_with fsub s l r t =
     ((if 0 < left_eye_closed_time s
          \<and> fst (wink_duration s) \<le> fsub t (left_eye_closed_time s)
          \<and> fsub t (left_eye_closed_time s) \<le> snd (wink_duration s)
       then LEFT_WINK else NONE), s\<lparr>right_eye_closed_time := 0\<rparr>)"
  using assms by (simp add: detect_gesture_with_def Let_def)

lemma right_only_running:
  assumes "\<not> l < ear_threshold s" "r < ear_threshold s" "right_eye_closed_time s \<noteq> 0"
  shows "detect_gesture_with fsub s l r t =
     ((if 0 < right_eye_closed_time s
          \<and> fst (wink_duration s) \<le> fsub t (right_eye_closed_time s)
          \<and> fsub t (right_eye_closed_time s) \<le> snd (wink_duration s)
       then RIGHT_WINK else NONE), s\<lparr>left_eye_closed_time := 0\<rparr>)"
  using assms by (simp add: detect_gesture_with_def Let_def)

lemma both_closed_gesture:
  "l < ear_threshold s \<Longrightarrow> r < ear_threshold s \<Longrightarrow>
   fst (detect_gesture_with fsub s l r t) =
     (if fsub t (last_blink_time s) < 0.5 \<and> 1 \<le> blink_count s then DOUBLE_BLINK else NONE)"
  by (simp add: detect_gesture_with_def Let_def)

lemma both_closed_last_blink_time:
  "l < ear_threshold s \<Longrightarrow> r < ear_threshold s \<Longrightarrow>
   last_blink_time (snd (detect_gesture_with fsub s l r t)) =
     (if fsub t (last_blink_time s) < 0.5 \<and> 1 \<le> blink_count s then last_blink_time s else t)"
  by (simp add: detect_gesture_with_def Let_def)

lemma both_closed_blink_count:
  "l < ear_threshold s \<Longrightarrow> r < ear_threshold s \<Longrightarrow>
   blink_count (snd (detect_gesture_with fsub s l r t)) =
     (if fsub t (last_blink_time s) < 0.5
      then (if 1 \<le> blink_count s then 0 else blink_count s + 1) else 1)"
  by (simp add: detect_gesture_with_def Let_def)

lemma gesture_range:
  "fst (detect_gesture s l r t) \<in> {NONE, LEFT_WINK, RIGHT_WINK, DOUBLE_BLINK}"
  by (simp add: detect_gesture_def Let_def)

section \<open>A closure of one eye over several frames\<close>

lemma left_closed_frames:
  assumes "c < ear_threshold s" "\<not> a < ear_threshold s"
      "left_eye_closed_time s = t0" "0 < t0"
  shows "fst (detect_gestures_with fsub s (map (\<lambda>t. (c, a, t)) ts @ [(a, a, b)]))
     = map (\<lambda>t. if fst (wink_duration s) \<le> fsub t t0 \<and> fsub t t0 \<le> snd (wink_duration s)
                  then LEFT_WINK else NONE) ts @ [NONE]"
  using assms
proof (induction ts arbitrary: s)
  case Nil
  then show ?case by (simp add: both_open)
next
  case (Cons t ts)
  let ?s1 = "s\<lparr>right_eye_closed_time := 0\<rparr>"
  have step: "detect_gesture_with fsub s c a t =
      ((if fst (wink_duration s) \<le> fsub t t0 \<and> fsub t t0 \<le> snd (wink_duration s)
        then LEFT_WINK else NONE), ?s1)"
    using Cons.prems left_only_running [of c s a fsub t] by simp
  have ih: "fst (detect_gestures_with fsub ?s1 (map (\<lambda>t. (c, a, t)) ts @ [(a, a, b)]))
     = map (\<lambda>t. if fst (wink_duration ?s1) \<le> fsub t t0 \<and> fsub t t0 \<le> snd (wink_duration ?s1)
                  then LEFT_WINK else NONE) ts @ [NONE]"
    using Cons.prems by (intro Cons.IH) simp_all
  show ?case using ih by (simp add: step split_beta)
qed

lemma right_closed_frames:
  assumes "c < ear_threshold s" "\<not> a < ear_threshold s"
      "right_eye_closed_time s = t0" "0 < t0"
  shows "fst (detect_gestures_with fsub s (map (\<lambda>t. (a, c, t)) ts @ [(a, a, b)]))
     = map (\<lambda>t. if fst (wink_duration s) \<le> fsub t t0 \<and> fsub t t0 \<le> snd (wink_duration s)
                  then RIGHT_WINK else NONE) ts @ [NONE]"
  using assms
proof (induction ts arbitrary: s)
  case Nil
  then show ?case by (simp add: both_open)
next
  case (Cons t ts)
  let ?s1 = "s\<lparr>left_eye_closed_time := 0\<rparr>"
  have step: "detect_gesture_with fsub s a c t =
      ((if fst (wink_duration s) \<le> fsub t t0 \<and> fsub t t0 \<le> snd (wink_duration s)
        then RIGHT_WINK else NONE), ?s1)"
    using Cons.prems right_only_running [of a s c fsub t] by simp
  have ih: "fst (detect_gestures_with fsub ?s1 (map (\<lambda>t. (a, c, t)) ts @ [(a, a, b)]))
     = map (\<lambda>t. if fst (wink_duration ?s1) \<le> fsub t t0 \<and> fsub t t0 \<le> snd (wink_duration ?s1)
                  then RIGHT_WINK else NONE) ts @ [NONE]"
    using Cons.prems by (intro Cons.IH) simp_all
  show ?case using ih by (simp add: step split_beta)
qed

section \<open>The reference event of the double blink (C1)\<close>

text \<open>
  C1 says that every call with both ratios below \<open>ear_threshold\<close> leaves
  \<open>last_blink_time\<close> equal to that call's timestamp, also when the call fires a
  double blink. The code returns \<open>DOUBLE_BLINK\<close> before it reaches the
  assignment: on a fresh default tracker, a both-eyes-closed call at time \<open>1\<close>
  followed by one at time \<open>1.25\<close> fires the double blink on the second call and
  leaves \<open>last_blink_time\<close> at \<open>1\<close>, the timestamp of the first call.
\<close>

theorem double_blink_skips_last_blink_time:
  "fst (detect_gesture (snd (detect_gesture EyeTracker_default 0.1 0.1 1)) 0.1 0.1 1.25)
     = DOUBLE_BLINK
   \<and> last_blink_time
       (snd (detect_gesture (snd (detect_gesture EyeTracker_default 0.1 0.1 1)) 0.1 0.1 1.25))
     = 1"
  by (simp add: detect_gesture_def EyeTracker_default_def EyeTracker_init_def Let_def)

section \<open>Winks (C2)\<close>

text \<open>
  C2 as stated, refuted: the default tracker sees the eyes open at \<open>0.5\<close>, the
  left eye alone closed at \<open>1\<close>, \<open>1.25\<close> and \<open>1.3\<close> (a closure spanning
  \<open>0.3\<close> seconds) and the eyes open again at \<open>1.4\<close>. The wink is returned on two
  calls, not on exactly one: the code has no memory of a wink it has reported.
\<close>

theorem wink_reported_twice:
  "fst (detect_gestures EyeTracker_default
      [(0.4, 0.4, 0.5), (0.1, 0.4, 1), (0.1, 0.4, 1.25), (0.1, 0.4, 1.3), (0.4, 0.4, 1.4)])
     = [NONE, NONE, LEFT_WINK, LEFT_WINK, NONE]"
  by (simp add: detect_gesture_def EyeTracker_default_def EyeTracker_init_def Let_def)

text \<open>
  C2, amended: a freshly constructed default tracker is fed one frame with both eyes
  open (ratio \<open>0.4\<close>), then frames with exactly one eye closed (ratio \<open>0.1\<close>) at the
  timestamps \<open>t0 # ts\<close> with \<open>t0\<close> positive, then a frame with both eyes open.
  Then \<open>detect_gesture\<close> returns the corresponding wink on every closed-eye call
  whose closure duration, as the code computes it (\<open>fsub t t0\<close>, the difference
  of the call's timestamp and that of the first closed frame, whatever the
  subtraction \<open>fsub\<close> is and so also with the rounding of the floats), lies in
  \<open>[0.2, 0.5]\<close>, and \<open>NONE\<close> on every other call. The wink is returned exactly
  once precisely when one closed-eye frame falls into that window.
\<close>

theorem wink_on_each_frame_in_window:
  assumes "0 < t0"
  shows "fst (detect_gestures_with fsub EyeTracker_default
            ((0.4, 0.4, a) # map (\<lambda>t. (0.1, 0.4, t)) (t0 # ts) @ [(0.4, 0.4, b)]))
         = NONE # map (\<lambda>t. if 0.2 \<le> fsub t t0 \<and> fsub t t0 \<le> 0.5 then LEFT_WINK else NONE)
                    (t0 # ts) @ [NONE]
       \<and> fst (detect_gestures_with fsub EyeTracker_default
            ((0.4, 0.4, a) # map (\<lambda>t. (0.4, 0.1, t)) (t0 # ts) @ [(0.4, 0.4, b)]))
         = NONE # map (\<lambda>t. if 0.2 \<le> fsub t t0 \<and> fsub t t0 \<le> 0.5 then RIGHT_WINK else NONE)
                    (t0 # ts) @ [NONE]"
proof -
  let ?s0 = "EyeTracker_default\<lparr>left_eye_closed_time := 0, right_eye_closed_time := 0\<rparr>"
  have wd: "wink_duration ?s0 = (0.2, 0.5)"
    and tl: "left_eye_closed_time ?s0 = 0" and tr: "right_eye_closed_time ?s0 = 0"
    by (simp_all add: EyeTracker_default_def EyeTracker_init_def)
  have c: "(0.1::real) < ear_threshold ?s0" and o: "\<not> (0.4::real) < ear_threshold ?s0"
    by (simp_all add: EyeTracker_default_def EyeTracker_init_def)
  have o': "\<not> (0.4::real) < ear_threshold EyeTracker_default"
    by (simp add: EyeTracker_default_def EyeTracker_init_def)
  have open1: "detect_gesture_with fsub EyeTracker_default 0.4 0.4 a = (NONE, ?s0)"
    using both_open [OF o' o', of fsub a] by simp
  let ?sl = "?s0\<lparr>left_eye_closed_time := t0, right_eye_closed_time := 0\<rparr>"
  let ?sr = "?s0\<lparr>left_eye_closed_time := 0, right_eye_closed_time := t0\<rparr>"
  let ?w = "\<lambda>g t. if 0.2 \<le> fsub t t0 \<and> fsub t t0 \<le> 0.5 then g else NONE"
  have l1: "detect_gesture_with fsub ?s0 0.1 0.4 t0 = (?w LEFT_WINK t0, ?sl)"
    using left_first_closed [OF c o tl, of fsub t0] assms by (simp add: wd)
  have r1: "detect_gesture_with fsub ?s0 0.4 0.1 t0 = (?w RIGHT_WINK t0, ?sr)"
    using right_first_closed [OF c o tr, of fsub t0] assms by (simp add: wd)
  have lrest: "fst (detect_gestures_with fsub ?sl (map (\<lambda>t. (0.1, 0.4, t)) ts @ [(0.4, 0.4, b)]))
      = map (?w LEFT_WINK) ts @ [NONE]"
    using left_closed_frames [of "0.1" ?sl "0.4" t0 fsub ts b] assms
    by (simp add: EyeTracker_default_def EyeTracker_init_def)
  have rrest: "fst (detect_gestures_with fsub ?sr (map (\<lambda>t. (0.4, 0.1, t)) ts @ [(0.4, 0.4, b)]))
      = map (?w RIGHT_WINK) ts @ [NONE]"
    using right_closed_frames [of "0.1" ?sr "0.4" t0 fsub ts b] assms
    by (simp add: EyeTracker_default_def EyeTracker_init_def)
  have L: "fst (detect_gestures_with fsub EyeTracker_default
            ((0.4, 0.4, a) # map (\<lambda>t. (0.1, 0.4, t)) (t0 # ts) @ [(0.4, 0.4, b)]))
         = NONE # map (?w LEFT_WINK) (t0 # ts) @ [NONE]"
    using lrest open1 l1 by (simp add: split_beta)
  have R: "fst (detect_gestures_with fsub EyeTracker_default
            ((0.4, 0.4, a) # map (\<lambda>t. (0.4, 0.1, t)) (t0 # ts) @ [(0.4, 0.4, b)]))
         = NONE # map (?w RIGHT_WINK) (t0 # ts) @ [NONE]"
    using rrest open1 r1 by (simp add: split_beta)
  show ?thesis using L R by blast
qed

text \<open>
  The amended C2 at a concrete call sequence, with timestamps that are exact in
  binary, so that the rounding subtraction of the floats is the exact one: closed
  frames at \<open>1\<close>, \<open>1.125\<close> and \<open>1.25\<close>, of which only the last lies in the
  window.
\<close>

theorem wink_on_each_frame_in_window_witness:
  "(0::real) < 1
   \<and> fst (detect_gestures_with (\<lambda>a b. a - b) EyeTracker_default
        [(0.4, 0.4, 0.5), (0.1, 0.4, 1), (0.1, 0.4, 1.125), (0.1, 0.4, 1.25), (0.4, 0.4, 1.5)])
     = [NONE, NONE, NONE, LEFT_WINK, NONE]
   \<and> fst (detect_gestures_with (\<lambda>a b. a - b) EyeTracker_default
        [(0.4, 0.4, 0.5), (0.4, 0.1, 1), (0.4, 0.1, 1.125), (0.4, 0.1, 1.25), (0.4, 0.4, 1.5)])
     = [NONE, NONE, NONE, RIGHT_WINK, NONE]"
  using wink_on_each_frame_in_window [of 1 "\<lambda>a b. a - b" "0.5" "[1.125, 1.25]" "1.5"] by simp

section \<open>Closure timers (C3)\<close>

text \<open>
  C3 as stated, refuted: the code marks an unset timer by the value \<open>0\<close>, so a
  closure that begins at timestamp \<open>0\<close> (the default timestamp of
  \<open>process_frame\<close>) stores \<open>0\<close> and leaves the timer unset. On the default
  tracker the left ratio \<open>0.1\<close> is below the threshold, the left timer is unset
  before the call at time \<open>0\<close>, and it is still unset after it.
\<close>

theorem timer_unset_after_closure_at_zero:
  "(0.1::real) < ear_threshold EyeTracker_default
   \<and> left_eye_closed_time EyeTracker_default = 0
   \<and> left_eye_closed_time (snd (detect_gesture EyeTracker_default 0.1 0.4 0)) = 0"
  by (simp add: detect_gesture_def EyeTracker_default_def EyeTracker_init_def Let_def)

text \<open>
  C3, amended: for every call to \<open>detect_gesture\<close> with timestamp \<open>t\<close>, if an eye's
  ratio is below \<open>ear_threshold\<close> and that eye's timer was unset (equal to \<open>0\<close>)
  before the call, the timer holds \<open>t\<close> after the call, which is a set timer
  exactly when \<open>t\<close> is not \<open>0\<close>; if the eye's ratio is at or above the threshold,
  the timer is unset (equal to \<open>0\<close>) after the call, so no timer is left set while
  its eye is open in the current frame.
\<close>

theorem closure_timers_after_call:
  "(l < ear_threshold s \<and> left_eye_closed_time s = 0 \<longrightarrow>
      left_eye_closed_time (snd (detect_gesture s l r t)) = t
      \<and> (left_eye_closed_time (snd (detect_gesture s l r t)) \<noteq> 0) = (t \<noteq> 0))
   \<and> (\<not> l < ear_threshold s \<longrightarrow> left_eye_closed_time (snd (detect_gesture s l r t)) = 0)
   \<and> (r < ear_threshold s \<and> right_eye_closed_time s = 0 \<longrightarrow>
      right_eye_closed_time (snd (detect_gesture s l r t)) = t
      \<and> (right_eye_closed_time (snd (detect_gesture s l r t)) \<noteq> 0) = (t \<noteq> 0))
   \<and> (\<not> r < ear_threshold s \<longrightarrow> right_eye_closed_time (snd (detect_gesture s l r t)) = 0)"
proof -
  have L: "left_eye_closed_time (snd (detect_gesture s l r t)) =
      (if l < ear_threshold s
       then (if left_eye_closed_time s = 0 then t else left_eye_closed_time s) else 0)"
    by (simp add: detect_gesture_def Let_def)
  have R: "right_eye_closed_time (snd (detect_gesture s l r t)) =
      (if r < ear_threshold s
       then (if right_eye_closed_time s = 0 then t else right_eye_closed_time s) else 0)"
    by (simp add: detect_gesture_def Let_def)
  show ?thesis unfolding L R by simp
qed

text \<open>
  The amended C3 on the default tracker at time \<open>1\<close>: once with the left eye
  closed and the right eye open, once the other way round.
\<close>

theorem closure_timers_after_call_witness:
  "(0.1::real) < ear_threshold EyeTracker_default
   \<and> \<not> (0.4::real) < ear_threshold EyeTracker_default
   \<and> left_eye_closed_time EyeTracker_default = 0
   \<and> right_eye_closed_time EyeTracker_default = 0
   \<and> left_eye_closed_time (snd (detect_gesture EyeTracker_default 0.1 0.4 1)) = 1
   \<and> right_eye_closed_time (snd (detect_gesture EyeTracker_default 0.1 0.4 1)) = 0
   \<and> left_eye_closed_time (snd (detect_gesture EyeTracker_default 0.4 0.1 1)) = 0
   \<and> right_eye_closed_time (snd (detect_gesture EyeTracker_default 0.4 0.1 1)) = 1"
  using closure_timers_after_call [of "0.1" EyeTracker_default "0.4" 1]
    closure_timers_after_call [of "0.4" EyeTracker_default "0.1" 1]
  by (simp add: EyeTracker_default_def EyeTracker_init_def)

section \<open>Double blinks (C5, C10)\<close>

text \<open>
  C5: a freshly constructed tracker (any configuration) receives three calls with
  both ratios below the threshold, at \<open>t\<close>, \<open>t + 0.3\<close> and \<open>t + 0.3 + 0.3\<close>. The
  second call returns \<open>DOUBLE_BLINK\<close>; the third does not, and it starts a fresh
  count: afterwards the blink counter is \<open>1\<close> and the reference event is the third
  call.
\<close>

theorem double_blink_then_fresh_count:
  assumes "l1 < thr" "r1 < thr" "l2 < thr" "r2 < thr" "l3 < thr" "r3 < thr"
  shows "fst (detect_gestures (EyeTracker_init thr wd)
              [(l1, r1, t), (l2, r2, t + 0.3), (l3, r3, t + 0.3 + 0.3)])
           = [NONE, DOUBLE_BLINK, NONE]
         \<and> blink_count (snd (detect_gestures (EyeTracker_init thr wd)
              [(l1, r1, t), (l2, r2, t + 0.3), (l3, r3, t + 0.3 + 0.3)])) = 1
         \<and> last_blink_time (snd (detect_gestures (EyeTracker_init thr wd)
              [(l1, r1, t), (l2, r2, t + 0.3), (l3, r3, t + 0.3 + 0.3)])) = t + 0.3 + 0.3"
  using assms by (simp add: detect_gesture_def EyeTracker_init_def Let_def)

text \<open>C5 on the default tracker, with both ratios \<open>0.1\<close> at times \<open>1\<close>, \<open>1.3\<close>, \<open>1.6\<close>.\<close>

theorem double_blink_then_fresh_count_witness:
  "(0.1::real) < 0.25
   \<and> fst (detect_gestures (EyeTracker_init 0.25 (0.2, 0.5))
          [(0.1, 0.1, 1), (0.1, 0.1, 1 + 0.3), (0.1, 0.1, 1 + 0.3 + 0.3)])
       = [NONE, DOUBLE_BLINK, NONE]
   \<and> blink_count (snd (detect_gestures (EyeTracker_init 0.25 (0.2, 0.5))
          [(0.1, 0.1, 1), (0.1, 0.1, 1 + 0.3), (0.1, 0.1, 1 + 0.3 + 0.3)])) = 1"
  using double_blink_then_fresh_count [of "0.1" "0.25" "0.1" "0.1" "0.1" "0.1" "0.1" "(0.2, 0.5)" 1]
  by simp

text \<open>
  C10: two consecutive calls with both ratios below the threshold. If the first
  call left the blink counter at \<open>1\<close> and the second call's timestamp is less than
  \<open>0.5\<close> after the recorded reference event, as the code computes that gap
  (\<open>fsub t2 (last_blink_time s1)\<close>, whatever the subtraction \<open>fsub\<close> is and so
  also with the rounding of the floats), the second call returns \<open>DOUBLE_BLINK\<close>,
  although no call saw the eyes open in between. The first call then returned
  \<open>NONE\<close> and recorded its own timestamp as the reference event.
\<close>

theorem sustained_closure_double_blink:
  assumes "l1 < ear_threshold s" "r1 < ear_threshold s"
    and "detect_gesture_with fsub s l1 r1 t1 = (g1, s1)"
    and "blink_count s1 = 1"
    and "l2 < ear_threshold s1" "r2 < ear_threshold s1"
    and "fsub t2 (last_blink_time s1) < 0.5"
  shows "fst (detect_gesture_with fsub s1 l2 r2 t2) = DOUBLE_BLINK
         \<and> last_blink_time s1 = t1 \<and> g1 = NONE"
proof -
  have s1: "s1 = snd (detect_gesture_with fsub s l1 r1 t1)"
    and g1: "g1 = fst (detect_gesture_with fsub s l1 r1 t1)"
    using assms(3) by simp_all
  have a: "fst (detect_gesture_with fsub s1 l2 r2 t2) = DOUBLE_BLINK"
    using both_closed_gesture [of l2 s1 r2 fsub t2] assms(4-7) by simp
  have cnt: "blink_count (snd (detect_gesture_with fsub s l1 r1 t1)) = 1"
    using assms(4) s1 by simp
  have nofire: "\<not> (fsub t1 (last_blink_time s) < 0.5 \<and> 1 \<le> blink_count s)"
    using cnt both_closed_blink_count [OF assms(1,2), of fsub t1] by (auto split: if_splits)
  have b: "last_blink_time s1 = t1"
    unfolding s1 using both_closed_last_blink_time [OF assms(1,2), of fsub t1] nofire by auto
  have c: "g1 = NONE"
    unfolding g1 using both_closed_gesture [OF assms(1,2), of fsub t1] nofire by auto
  show ?thesis using a b c by simp
qed

text \<open>
  C10 on the default tracker, with timestamps that are exact in binary, so that
  the rounding subtraction of the floats is the exact one: both eyes closed at
  time \<open>1\<close> and still closed at time \<open>1.25\<close>.
\<close>

theorem sustained_closure_double_blink_witness:
  "(0.1::real) < ear_threshold EyeTracker_default
   \<and> blink_count (snd (detect_gesture_with (\<lambda>a b. a - b) EyeTracker_default 0.1 0.1 1)) = 1
   \<and> (0.1::real) < ear_threshold (snd (detect_gesture_with (\<lambda>a b. a - b) EyeTracker_default 0.1 0.1 1))
   \<and> 1.25 - last_blink_time (snd (detect_gesture_with (\<lambda>a b. a - b) EyeTracker_default 0.1 0.1 1))
       < 0.5
   \<and> fst (detect_gesture_with (\<lambda>a b. a - b)
         (snd (detect_gesture_with (\<lambda>a b. a - b) EyeTracker_default 0.1 0.1 1)) 0.1 0.1 1.25)
       = DOUBLE_BLINK"
proof -
  let ?f = "\<lambda>a b::real. a - b"
  let ?s1 = "snd (detect_gesture_with ?f EyeTracker_default 0.1 0.1 1)"
  have thr: "(0.1::real) < ear_threshold EyeTracker_default"
    by (simp add: EyeTracker_default_def EyeTracker_init_def)
  have thr1: "(0.1::real) < ear_threshold ?s1"
    by (simp add: detect_gesture_with_def EyeTracker_default_def EyeTracker_init_def Let_def)
  have call: "detect_gesture_with ?f EyeTracker_default 0.1 0.1 1
      = (fst (detect_gesture_with ?f EyeTracker_default 0.1 0.1 1), ?s1)"
    by simp
  have cnt: "blink_count ?s1 = 1"
    by (simp add: detect_gesture_with_def EyeTracker_default_def EyeTracker_init_def Let_def)
  have gap: "?f 1.25 (last_blink_time ?s1) < 0.5"
    by (simp add: detect_gesture_with_def EyeTracker_default_def EyeTracker_init_def Let_def)
  show ?thesis
    using sustained_closure_double_blink [of "0.1" EyeTracker_default "0.1" ?f 1
        "fst (detect_gesture_with ?f EyeTracker_default 0.1 0.1 1)" ?s1 "0.1" "0.1" "1.25",
        OF thr thr call cnt thr1 thr1 gap] thr thr1 cnt gap
    by simp
qed

section \<open>The gestures that can be returned (C8)\<close>

text \<open>
  C8: in every state and for every input, \<open>detect_gesture\<close> returns a value of the
  five-valued enumeration \<open>GestureType\<close> (it is a total function into that type),
  and that value is one of \<open>NONE\<close>, \<open>LEFT_WINK\<close>, \<open>RIGHT_WINK\<close> and
  \<open>DOUBLE_BLINK\<close>; \<open>SUSTAINED_GAZE\<close> is returned by no call of any call sequence.
\<close>

theorem sustained_gaze_never_returned:
  "fst (detect_gesture s l r t) \<in> {NONE, LEFT_WINK, RIGHT_WINK, DOUBLE_BLINK}
   \<and> fst (detect_gesture s l r t) \<noteq> SUSTAINED_GAZE
   \<and> SUSTAINED_GAZE \<notin> set (fst (detect_gestures s calls))"
proof -
  have one: "fst (detect_gesture s' l' r' t') \<noteq> SUSTAINED_GAZE" for s' l' r' t'
    using gesture_range [of s' l' r' t'] by auto
  have seq: "SUSTAINED_GAZE \<notin> set (fst (detect_gestures s calls))"
  proof (induction calls arbitrary: s)
    case Nil
    then show ?case by simp
  next
    case (Cons c calls)
    obtain l' r' t' where c: "c = (l', r', t')" by (cases c) auto
    show ?case
      using one [of s l' r' t'] Cons.IH [of "snd (detect_gesture s l' r' t')"]
      by (simp add: c split_beta Let_def)
  qed
  show ?thesis using gesture_range [of s l r t] one [of s l r t] seq by simp
qed

section \<open>Resetting (C9)\<close>

text \<open>
  C9: \<open>reset_metrics\<close> clears both closure timers, the last-blink reference
  timestamp, the blink counter and the gaze history; it leaves \<open>ear_threshold\<close>,
  \<open>wink_duration\<close> and the stored frame dimensions (and the history capacity)
  unchanged; and resetting twice gives the same state as resetting once.
\<close>

theorem reset_metrics_effect:
  "left_eye_closed_time (reset_metrics s) = 0
   \<and> right_eye_closed_time (reset_metrics s) = 0
   \<and> last_blink_time (reset_metrics s) = 0
   \<and> blink_count (reset_metrics s) = 0
   \<and> gaze_history (reset_metrics s) = []
   \<and> ear_threshold (reset_metrics s) = ear_threshold s
   \<and> wink_duration (reset_metrics s) = wink_duration s
   \<and> frame_width (reset_metrics s) = frame_width s
   \<and> frame_height (reset_metrics s) = frame_height s
   \<and> gaze_history_max (reset_metrics s) = gaze_history_max s
   \<and> reset_metrics (reset_metrics s) = reset_metrics s"
  by (simp add: reset_metrics_def)

section \<open>The metrics never raise on the tracker's own index lists\<close>

lemma py_max_Max: "py_max (x # xs) = Inr (Max (set (x # xs)))"
  by (simp only: py_max.simps Max.set_eq_fold)

lemma py_getitem_in_range:
  "- int (length xs) \<le> i \<Longrightarrow> i < int (length xs) \<Longrightarrow> py_getitem xs i = Inr (py_at xs i)"
  by (simp add: py_getitem_def)

lemma calculate_ear_LEFT: "\<exists>v. calculate_ear lms LEFT_EAR_INDICES = Inr v"
proof (cases "int (length lms) < 161")
  case True
  then show ?thesis
    by (simp add: calculate_ear_def LEFT_EAR_INDICES_def bind_err_def)
next
  case False
  then show ?thesis
    by (simp add: calculate_ear_def LEFT_EAR_INDICES_def bind_err_def py_getitem_def
        py_at_def Let_def)
qed

lemma calculate_ear_RIGHT: "\<exists>v. calculate_ear lms RIGHT_EAR_INDICES = Inr v"
proof (cases "int (length lms) < 388")
  case True
  then show ?thesis
    by (simp add: calculate_ear_def RIGHT_EAR_INDICES_def bind_err_def)
next
  case False
  then show ?thesis
    by (simp add: calculate_ear_def RIGHT_EAR_INDICES_def bind_err_def py_getitem_def
        py_at_def Let_def)
qed

lemma calculate_gaze_LEFT:
  "calculate_gaze s lms LEFT_EYE_INDICES =
     Inr (if int (length lms) < 247 \<or> \<not> (frame_width s > 0 \<and> frame_height s > 0)
          then (0.5, 0.5)
          else (real_of_int (fst (lms ! 7)) / real_of_int (frame_width s),
                real_of_int (snd (lms ! 7)) / real_of_int (frame_height s)))"
proof (cases "int (length lms) < 247")
  case True
  then show ?thesis
    by (simp add: calculate_gaze_def LEFT_EYE_INDICES_def bind_err_def)
next
  case False
  then show ?thesis
    by (simp add: calculate_gaze_def LEFT_EYE_INDICES_def bind_err_def py_getitem_def
        py_at_def)
qed

lemma calculate_gaze_RIGHT:
  "calculate_gaze s lms RIGHT_EYE_INDICES =
     Inr (if int (length lms) < 467 \<or> \<not> (frame_width s > 0 \<and> frame_height s > 0)
          then (0.5, 0.5)
          else (real_of_int (fst (lms ! 382)) / real_of_int (frame_width s),
                real_of_int (snd (lms ! 382)) / real_of_int (frame_height s)))"
proof (cases "int (length lms) < 467")
  case True
  then show ?thesis
    by (simp add: calculate_gaze_def RIGHT_EYE_INDICES_def bind_err_def)
next
  case False
  then show ?thesis
    by (simp add: calculate_gaze_def RIGHT_EYE_INDICES_def bind_err_def py_getitem_def
        py_at_def)
qed

section \<open>The gaze history\<close>

lemma update_gaze_history_last:
  assumes "gaze_history_max s = 30" "gaze_history s = drop (length ps - 30) ps"
  shows "gaze_history (update_gaze_history s p) = drop (length (ps @ [p]) - 30) (ps @ [p])"
proof (cases "length ps < 30")
  case True
  then show ?thesis using assms by (simp add: update_gaze_history_def Let_def)
next
  case False
  then have len: "30 \<le> length ps" by simp
  have hlen: "length (gaze_history s) = 30"
    using assms(2) len by simp
  have "gaze_history (update_gaze_history s p) = tl (gaze_history s @ [p])"
    using assms(1) hlen by (simp add: update_gaze_history_def Let_def)
  also have "\<dots> = tl (gaze_history s) @ [p]"
    using hlen by (cases "gaze_history s") simp_all
  also have "\<dots> = drop (Suc (length ps - 30)) ps @ [p]"
    by (simp add: assms(2) drop_Suc tl_drop)
  also have "\<dots> = drop (length (ps @ [p]) - 30) (ps @ [p])"
  proof -
    have "Suc (length ps - 30) = length (ps @ [p]) - 30"
      using len by simp
    then show ?thesis using len by simp
  qed
  finally show ?thesis .
qed

lemma update_gaze_history_frame:
  "gaze_history_max (update_gaze_history s p) = gaze_history_max s"
  by (simp add: update_gaze_history_def Let_def)

lemma detect_gesture_gaze_history:
  "gaze_history (snd (detect_gesture s l r t)) = gaze_history s"
  "gaze_history_max (snd (detect_gesture s l r t)) = gaze_history_max s"
  by (simp_all add: detect_gesture_def Let_def)


lemma process_frame_history:
  assumes "gaze_history_max s = 30" "gaze_history s = drop (length ps - 30) ps"
  shows "\<exists>d s'. process_frame s shape results t = Inr (d, s')
           \<and> gaze_history_max s' = 30
           \<and> gaze_history s' =
               drop (length (ps @ reported_gazes [d]) - 30) (ps @ reported_gazes [d])"
proof -
  let ?s1 = "if frame_width s = 0 \<or> frame_height s = 0
             then set_frame_dimensions s (int (snd shape)) (int (fst shape)) else s"
  have h1: "gaze_history_max ?s1 = 30" "gaze_history ?s1 = drop (length ps - 30) ps"
    using assms by (simp_all add: set_frame_dimensions_def)
  show ?thesis
  proof (cases "\<exists>f fs. results = Some (f # fs)")
    case False
    then have "process_frame s shape results t = Inr (None, ?s1)"
      by (auto simp: process_frame_def Let_def split: option.splits list.splits)
    then show ?thesis using h1 by simp
  next
    case True
    then obtain f fs where r: "results = Some (f # fs)" by blast
    let ?lms = "map (\<lambda>(x, y). (py_int (x * real_of_int (frame_width ?s1)),
                                  py_int (y * real_of_int (frame_height ?s1)))) f"
    obtain le where le: "calculate_ear ?lms LEFT_EAR_INDICES = Inr le"
      using calculate_ear_LEFT [of ?lms] by blast
    obtain re where re: "calculate_ear ?lms RIGHT_EAR_INDICES = Inr re"
      using calculate_ear_RIGHT [of ?lms] by blast
    obtain lg where lg: "calculate_gaze ?s1 ?lms LEFT_EYE_INDICES = Inr lg"
      using calculate_gaze_LEFT [of ?s1 ?lms] by blast
    obtain rg where rg: "calculate_gaze ?s1 ?lms RIGHT_EYE_INDICES = Inr rg"
      using calculate_gaze_RIGHT [of ?s1 ?lms] by blast
    let ?c = "((fst lg + fst rg) / 2, (snd lg + snd rg) / 2)"
    let ?s2 = "update_gaze_history ?s1 ?c"
    let ?d = "\<lparr> left_ear = le, right_ear = re, left_gaze = lg, right_gaze = rg,
                combined_gaze = ?c,
                is_blinking = (le < ear_threshold ?s2 \<or> re < ear_threshold ?s2),
                gesture = fst (detect_gesture ?s2 le re t), landmarks = Some ?lms \<rparr>"
    have pf: "process_frame s shape results t = Inr (Some ?d, snd (detect_gesture ?s2 le re t))"
      unfolding process_frame_def Let_def r option.case list.case le re lg rg bind_err_def
        sum.case split_beta ..
    have m: "gaze_history_max (snd (detect_gesture ?s2 le re t)) = 30"
      using h1(1) by (simp only: detect_gesture_gaze_history update_gaze_history_frame)
    have h: "gaze_history (snd (detect_gesture ?s2 le re t)) =
        drop (length (ps @ [?c]) - 30) (ps @ [?c])"
      unfolding detect_gesture_gaze_history
      by (rule update_gaze_history_last [OF h1])
    show ?thesis using pf m h by simp
  qed
qed

lemma process_frames_history:
  assumes "gaze_history_max s = 30" "gaze_history s = drop (length ps - 30) ps"
  shows "\<exists>ds s'. process_frames s frames = Inr (ds, s')
           \<and> gaze_history_max s' = 30
           \<and> gaze_history s' =
               drop (length (ps @ reported_gazes ds) - 30) (ps @ reported_gazes ds)"
  using assms
proof (induction frames arbitrary: s ps)
  case Nil
  then show ?case by simp
next
  case (Cons fr frames)
  obtain shape results t where fr: "fr = (shape, results, t)" by (cases fr) auto
  obtain d s1 where d: "process_frame s shape results t = Inr (d, s1)"
      and m1: "gaze_history_max s1 = 30"
      and h1: "gaze_history s1 =
          drop (length (ps @ reported_gazes [d]) - 30) (ps @ reported_gazes [d])"
    using process_frame_history [OF Cons.prems, of shape results t] by blast
  obtain ds s2 where ds: "process_frames s1 frames = Inr (ds, s2)"
      and m2: "gaze_history_max s2 = 30"
      and h2: "gaze_history s2 =
          drop (length ((ps @ reported_gazes [d]) @ reported_gazes ds) - 30)
               ((ps @ reported_gazes [d]) @ reported_gazes ds)"
    using Cons.IH [OF m1 h1] by blast
  have run: "process_frames s (fr # frames) = Inr (d # ds, s2)"
    by (simp add: fr d ds bind_err_def)
  have cat: "reported_gazes (d # ds) = reported_gazes [d] @ reported_gazes ds"
    by (cases d) simp_all
  show ?case using run m2 h2 by (simp add: cat)
qed

lemma push_points_history:
  assumes "gaze_history_max s = 30" "gaze_history s = drop (length qs - 30) qs"
  shows "gaze_history (fold (\<lambda>p s. update_gaze_history s p) ps s)
           = drop (length (qs @ ps) - 30) (qs @ ps)"
  using assms
proof (induction ps arbitrary: s qs)
  case Nil
  then show ?case by simp
next
  case (Cons p ps)
  have m: "gaze_history_max (update_gaze_history s p) = 30"
    using Cons.prems(1) by (simp add: update_gaze_history_frame)
  have h: "gaze_history (update_gaze_history s p) = drop (length (qs @ [p]) - 30) (qs @ [p])"
    by (rule update_gaze_history_last [OF Cons.prems])
  show ?case using Cons.IH [OF m h] by simp
qed

section \<open>The bounded gaze history (C7)\<close>

text \<open>
  C7: a freshly constructed tracker processes any sequence of frames without
  raising, and afterwards its gaze history holds at most 30 entries, namely the
  last 30 combined-gaze points of the frames that produced a result, oldest first.
  Appending a point to a full history drops exactly the oldest entry. After
  pushing 35 points onto the history of a fresh tracker it holds exactly the last
  30 of them in order of arrival.
\<close>

theorem gaze_history_bounded_fifo:
  "(\<exists>ds s'. process_frames (EyeTracker_init thr wd) frames = Inr (ds, s')
       \<and> length (gaze_history s') \<le> 30
       \<and> gaze_history s' = drop (length (reported_gazes ds) - 30) (reported_gazes ds))
   \<and> (gaze_history_max s = 30 \<and> length (gaze_history s) = 30 \<longrightarrow>
        gaze_history (update_gaze_history s p) = tl (gaze_history s) @ [p])
   \<and> (length ps = 35 \<longrightarrow>
        gaze_history (fold (\<lambda>p s. update_gaze_history s p) ps (EyeTracker_init thr wd))
          = drop 5 ps)"
proof -
  have m0: "gaze_history_max (EyeTracker_init thr wd) = 30"
    and h0: "gaze_history (EyeTracker_init thr wd) = drop (length ([]::(real \<times> real) list) - 30) []"
    by (simp_all add: EyeTracker_init_def)
  obtain ds s' where run: "process_frames (EyeTracker_init thr wd) frames = Inr (ds, s')"
      and h: "gaze_history s' =
          drop (length ([] @ reported_gazes ds) - 30) ([] @ reported_gazes ds)"
    using process_frames_history [OF m0 h0, of frames] by blast
  have A: "\<exists>ds s'. process_frames (EyeTracker_init thr wd) frames = Inr (ds, s')
       \<and> length (gaze_history s') \<le> 30
       \<and> gaze_history s' = drop (length (reported_gazes ds) - 30) (reported_gazes ds)"
    using run h by auto
  have B: "gaze_history (update_gaze_history s p) = tl (gaze_history s) @ [p]"
    if "gaze_history_max s = 30" "length (gaze_history s) = 30"
  proof -
    have "gaze_history (update_gaze_history s p) = tl (gaze_history s @ [p])"
      using that by (simp add: update_gaze_history_def Let_def)
    also have "\<dots> = tl (gaze_history s) @ [p]"
      using that(2) by (cases "gaze_history s") simp_all
    finally show ?thesis .
  qed
  have C: "gaze_history (fold (\<lambda>p s. update_gaze_history s p) ps (EyeTracker_init thr wd))
      = drop 5 ps" if "length ps = 35"
    using push_points_history [OF m0 h0, of ps] that by simp
  show ?thesis using A B C by blast
qed

text \<open>
  C7 at concrete data: a full history of the 30 points \<open>(0, 0), \<dots>, (29, 0)\<close>
  receives the point \<open>(30, 0)\<close>, and the 35 points \<open>(0, 0), \<dots>, (34, 0)\<close> are
  pushed onto the history of the default tracker.
\<close>

theorem gaze_history_bounded_fifo_witness:
  "gaze_history_max (EyeTracker_default\<lparr>gaze_history := sample_points 30\<rparr>) = 30
   \<and> length (gaze_history (EyeTracker_default\<lparr>gaze_history := sample_points 30\<rparr>)) = 30
   \<and> gaze_history (update_gaze_history
         (EyeTracker_default\<lparr>gaze_history := sample_points 30\<rparr>) (30, 0))
       = tl (sample_points 30) @ [(30, 0)]
   \<and> length (sample_points 35) = 35
   \<and> gaze_history (fold (\<lambda>p s. update_gaze_history s p) (sample_points 35) EyeTracker_default)
       = drop 5 (sample_points 35)"
proof -
  let ?s = "EyeTracker_default\<lparr>gaze_history := sample_points 30\<rparr>"
  have m: "gaze_history_max ?s = 30"
    by (simp add: EyeTracker_default_def EyeTracker_init_def)
  have l: "length (gaze_history ?s) = 30"
    by (simp add: sample_points_def)
  have l35: "length (sample_points 35) = 35"
    by (simp add: sample_points_def)
  note inst = gaze_history_bounded_fifo [of "0.25" "(0.2, 0.5)" "[]" ?s "(30, 0)" "sample_points 35"]
  have B: "gaze_history (update_gaze_history ?s (30, 0)) = tl (gaze_history ?s) @ [(30, 0)]"
    using inst m l by blast
  have C: "gaze_history (fold (\<lambda>p s. update_gaze_history s p) (sample_points 35)
             (EyeTracker_init 0.25 (0.2, 0.5))) = drop 5 (sample_points 35)"
    using inst l35 by blast
  show ?thesis using m l l35 B C by (simp add: EyeTracker_default_def)
qed

section \<open>Degenerate eye aspect ratios (C4)\<close>

lemma nth_le_Max: "k < length xs \<Longrightarrow> xs ! k \<le> Max (set xs)" for xs :: "int list"
  by simp

lemma py_getitem_literal:
  "k < length xs \<Longrightarrow> py_getitem xs (int k) = Inr (xs ! k)"
  by (simp add: py_getitem_def py_at_def)

lemma calculate_ear_short:
  assumes "eye_indices \<noteq> []" "int (length lms) < Max (set eye_indices) + 1"
  shows "calculate_ear lms eye_indices = Inr 0"
proof -
  obtain x xs where e: "eye_indices = x # xs"
    using assms(1) by (cases eye_indices) auto
  have "py_max eye_indices = Inr (Max (set eye_indices))"
    unfolding e by (rule py_max_Max)
  then show ?thesis using assms(2) by (simp add: calculate_ear_def bind_err_def)
qed

lemma calculate_ear_long:
  assumes len: "6 \<le> length eye_indices"
    and long: "\<not> int (length lms) < Max (set eye_indices) + 1"
    and low: "\<forall>i \<in> set (take 6 eye_indices). - int (length lms) \<le> i"
  shows "calculate_ear lms eye_indices =
     (let p1 = py_at lms (eye_indices ! 0); p2 = py_at lms (eye_indices ! 1);
          p3 = py_at lms (eye_indices ! 2); p4 = py_at lms (eye_indices ! 3);
          p5 = py_at lms (eye_indices ! 4); p6 = py_at lms (eye_indices ! 5)
      in if norm_diff p1 p4 = 0 then Inr 0
         else Inr ((norm_diff p2 p6 + norm_diff p3 p5) / (2 * norm_diff p1 p4)))"
proof -
  obtain x xs where e: "eye_indices = x # xs"
    using len by (cases eye_indices) auto
  have mx: "py_max eye_indices = Inr (Max (set eye_indices))"
    unfolding e by (rule py_max_Max)
  have idx: "py_getitem eye_indices (int k) = Inr (eye_indices ! k)" if "k < 6" for k
    using that len by (intro py_getitem_literal) simp
  have pt: "py_getitem lms (eye_indices ! k) = Inr (py_at lms (eye_indices ! k))"
    if "k < 6" for k
  proof (rule py_getitem_in_range)
    have "eye_indices ! k \<in> set (take 6 eye_indices)"
      using that len by (metis length_take min.absorb2 nth_mem nth_take)
    then show "- int (length lms) \<le> eye_indices ! k" using low by blast
    have "eye_indices ! k \<le> Max (set eye_indices)"
      using that len by (intro nth_le_Max) simp
    then show "eye_indices ! k < int (length lms)" using long by simp
  qed
  have i0: "py_getitem eye_indices 0 = Inr (eye_indices ! 0)" using idx [of 0] by simp
  have i1: "py_getitem eye_indices 1 = Inr (eye_indices ! 1)" using idx [of 1] by simp
  have i2: "py_getitem eye_indices 2 = Inr (eye_indices ! 2)" using idx [of 2] by simp
  have i3: "py_getitem eye_indices 3 = Inr (eye_indices ! 3)" using idx [of 3] by simp
  have i4: "py_getitem eye_indices 4 = Inr (eye_indices ! 4)" using idx [of 4] by simp
  have i5: "py_getitem eye_indices 5 = Inr (eye_indices ! 5)" using idx [of 5] by simp
  show ?thesis
    using long
    by (simp add: calculate_ear_def mx bind_err_def i0 i1 i2 i3 i4 i5
        pt [of 0] pt [of 1, simplified] pt [of 2] pt [of 3] pt [of 4] pt [of 5] Let_def)
qed

text \<open>
  C4: for an index list that is not empty (so that it has a highest index),
  \<open>calculate_ear\<close> returns exactly \<open>0\<close> whenever the landmark list is shorter than
  the highest index plus one. For an index list with the six positions, none of
  which lies below \<open>-len\<close> (where Python's indexing raises), it returns exactly
  \<open>0\<close> whenever the horizontal distance between the first point (top) and the
  fourth point (right corner) is zero, whatever the other four points are.
\<close>

theorem calculate_ear_degenerate:
  "(eye_indices \<noteq> [] \<and> int (length lms) < Max (set eye_indices) + 1
      \<longrightarrow> calculate_ear lms eye_indices = Inr 0)
   \<and> (6 \<le> length eye_indices
       \<and> (\<forall>i \<in> set (take 6 eye_indices). - int (length lms) \<le> i)
       \<and> norm_diff (py_at lms (eye_indices ! 0)) (py_at lms (eye_indices ! 3)) = 0
      \<longrightarrow> calculate_ear lms eye_indices = Inr 0)"
proof (intro conjI impI)
  assume "eye_indices \<noteq> [] \<and> int (length lms) < Max (set eye_indices) + 1"
  then show "calculate_ear lms eye_indices = Inr 0"
    using calculate_ear_short by blast
next
  assume a: "6 \<le> length eye_indices
       \<and> (\<forall>i \<in> set (take 6 eye_indices). - int (length lms) \<le> i)
       \<and> norm_diff (py_at lms (eye_indices ! 0)) (py_at lms (eye_indices ! 3)) = 0"
  show "calculate_ear lms eye_indices = Inr 0"
  proof (cases "int (length lms) < Max (set eye_indices) + 1")
    case True
    moreover have "eye_indices \<noteq> []" using a by auto
    ultimately show ?thesis by (rule calculate_ear_short [rotated])
  next
    case False
    show ?thesis
      using calculate_ear_long [of eye_indices lms] a False by (simp add: Let_def)
  qed
qed

text \<open>
  C4 at concrete data: one landmark against the indices \<open>0, \<dots>, 5\<close>, and six
  landmarks whose first and fourth points coincide while both vertical distances
  are positive.
\<close>

theorem calculate_ear_degenerate_witness:
  "[0, 1, 2, 3, 4, 5] \<noteq> ([]::int list)
   \<and> int (length [(0::int, 0::int)]) < Max (set [0, 1, 2, 3, 4, 5]) + 1
   \<and> calculate_ear [(0, 0)] [0, 1, 2, 3, 4, 5] = Inr 0
   \<and> 6 \<le> length [0, 1, 2, 3, 4, 5::int]
   \<and> list_all (\<lambda>i. - int (length [(1::int, 1::int), (0, 5), (2, 7), (1, 1), (3, 3), (4, 0)]) \<le> i)
         (take 6 [0, 1, 2, 3, 4, 5])
   \<and> norm_diff (py_at [(1, 1), (0, 5), (2, 7), (1, 1), (3, 3), (4, 0)] ([0, 1, 2, 3, 4, 5] ! 0))
                (py_at [(1, 1), (0, 5), (2, 7), (1, 1), (3, 3), (4, 0)] ([0, 1, 2, 3, 4, 5] ! 3)) = 0
   \<and> calculate_ear [(1, 1), (0, 5), (2, 7), (1, 1), (3, 3), (4, 0)] [0, 1, 2, 3, 4, 5] = Inr 0"
proof -
  have a1: "[0, 1, 2, 3, 4, 5] \<noteq> ([]::int list)" by simp
  have a2: "int (length [(0::int, 0::int)]) < Max (set [0, 1, 2, 3, 4, 5]) + 1" by simp
  have b1: "6 \<le> length [0, 1, 2, 3, 4, 5::int]" by simp
  have b2': "list_all (\<lambda>i. - int (length [(1::int, 1::int), (0, 5), (2, 7), (1, 1), (3, 3), (4, 0)]) \<le> i)
         (take 6 [0, 1, 2, 3, 4, 5])"
    by simp
  have b2: "\<forall>i \<in> set (take 6 [0, 1, 2, 3, 4, 5]).
         - int (length [(1::int, 1::int), (0, 5), (2, 7), (1, 1), (3, 3), (4, 0)]) \<le> i"
    by simp
  have b3: "norm_diff (py_at [(1, 1), (0, 5), (2, 7), (1, 1), (3, 3), (4, 0)] ([0, 1, 2, 3, 4, 5] ! 0))
                (py_at [(1, 1), (0, 5), (2, 7), (1, 1), (3, 3), (4, 0)] ([0, 1, 2, 3, 4, 5] ! 3)) = 0"
    by (simp add: norm_diff_def py_at_def)
  have r1: "calculate_ear [(0, 0)] [0, 1, 2, 3, 4, 5] = Inr 0"
    using calculate_ear_degenerate [of "[0, 1, 2, 3, 4, 5]" "[(0, 0)]"] a1 a2 by blast
  have r2: "calculate_ear [(1, 1), (0, 5), (2, 7), (1, 1), (3, 3), (4, 0)] [0, 1, 2, 3, 4, 5] = Inr 0"
    using calculate_ear_degenerate [of "[0, 1, 2, 3, 4, 5]"
        "[(1, 1), (0, 5), (2, 7), (1, 1), (3, 3), (4, 0)]"] b1 b2 b3 by blast
  show ?thesis using a1 a2 b1 b2' b3 r1 r2 by blast
qed

section \<open>The range of the gaze estimate (C6)\<close>

text \<open>
  C6 says that both coordinates returned by \<open>calculate_gaze\<close> always lie in
  \<open>[0, 1]\<close>, as the method's docstring does. The code divides the pixel
  coordinates by the frame dimensions and does not clamp: with a frame of
  \<open>100 \<times> 100\<close> and an iris landmark at \<open>(150, 50)\<close>, to the right of the frame,
  it returns \<open>(1.5, 0.5)\<close>.
\<close>

theorem calculate_gaze_outside_unit_range:
  "calculate_gaze (set_frame_dimensions EyeTracker_default 100 100) [(0, 0), (150, 50)] [0, 1]
     = Inr (1.5, 0.5)"
  by (simp add: calculate_gaze_def set_frame_dimensions_def EyeTracker_default_def
      EyeTracker_init_def bind_err_def py_getitem_def py_at_def)

end
